theory Spec2Isabelle
  imports Complex_Main
begin

section \<open>Telemetry data model\<close>

text \<open>
  A reading is one float64 sample of a channel. Ordered comparison of two float64 values
  involves no rounding, so a finite reading is kept as the real number it denotes; the
  three special values are kept apart because every ordered comparison with NaN is false.

  A threshold literal denotes the float64 nearest to its decimal value. The literals
  \<^verbatim>\<open>5e-6\<close>, \<^verbatim>\<open>3e-6\<close> and \<^verbatim>\<open>1e47\<close> round up and are compared with
  \<^verbatim>\<open>>\<close>, so the float64 itself is a reading at which the decimal value would give
  another verdict: they are written as the float64 they denote. For the other literals
  (\<^verbatim>\<open>4.5e-7\<close> and \<^verbatim>\<open>5e-8\<close> round down under \<^verbatim>\<open>>\<close>,
  \<^verbatim>\<open>2.5e-6\<close> rounds up under \<^verbatim>\<open><\<close>, \<^verbatim>\<open>10.0\<close> is exact) the
  comparison with the decimal value gives the same verdict at every float64 reading, and
  the decimal value is written.
\<close>

datatype reading = Finite real | PosInf | NegInf | NaN

text \<open>\<^verbatim>\<open>x < y\<close> on float64.\<close>

fun lt_reading :: "reading \<Rightarrow> reading \<Rightarrow> bool" where
  "lt_reading NaN _ = False"
| "lt_reading _ NaN = False"
| "lt_reading (Finite x) (Finite y) = (x < y)"
| "lt_reading (Finite _) PosInf = True"
| "lt_reading (Finite _) NegInf = False"
| "lt_reading PosInf _ = False"
| "lt_reading NegInf NegInf = False"
| "lt_reading NegInf _ = True"

text \<open>\<^verbatim>\<open>x > y\<close> on float64.\<close>

definition gt_reading :: "reading \<Rightarrow> reading \<Rightarrow> bool" where
  "gt_reading x y = lt_reading y x"

text \<open>
  A channel is a pandas Series, oldest sample first; \<^verbatim>\<open>goes_data\<close> maps channel
  names to their series (the columns of a DataFrame).
\<close>

type_synonym series = "reading list"

type_synonym sample_set = "string \<rightharpoonup> series"

text \<open>
  \<^verbatim>\<open>KeyError c\<close>: the column \<open>c\<close> is absent. \<^verbatim>\<open>IndexError\<close>: positional
  indexing of an empty series (the Python exception carries no channel name).
\<close>

datatype error = KeyError string | IndexError

section \<open>Accessors, with the sample set threaded through\<close>

text \<open>
  \<^verbatim>\<open>goes_data\<close> is a mutable object passed by reference. A computation takes its
  contents and returns them with the outcome.
\<close>

type_synonym 'a py = "sample_set \<Rightarrow> (error + 'a) \<times> sample_set"

definition return_py :: "'a \<Rightarrow> 'a py" where
  "return_py x goes_data = (Inr x, goes_data)"

definition raise_py :: "error \<Rightarrow> 'a py" where
  "raise_py e goes_data = (Inl e, goes_data)"

text \<open>Sequencing of statements: an exception skips what follows.\<close>

definition bind_py :: "'a py \<Rightarrow> ('a \<Rightarrow> 'b py) \<Rightarrow> 'b py" where
  "bind_py m f goes_data =
     (case m goes_data of
        (Inl e, goes_data') \<Rightarrow> (Inl e, goes_data')
      | (Inr x, goes_data') \<Rightarrow> f x goes_data')"

text \<open>\<^verbatim>\<open>goes_data[c]\<close>\<close>

definition getitem :: "string \<Rightarrow> series py" where
  "getitem c goes_data =
     (case goes_data c of
        None \<Rightarrow> (Inl (KeyError c), goes_data)
      | Some a \<Rightarrow> (Inr a, goes_data))"

text \<open>\<^verbatim>\<open>a.iloc[-1]\<close>\<close>

definition iloc_last :: "series \<Rightarrow> reading py" where
  "iloc_last a = (if a = [] then raise_py IndexError else return_py (last a))"

section \<open>The condition functions\<close>

definition xrsa_condition :: "bool py" where
  "xrsa_condition =
     bind_py (getitem ''xrsa'') (\<lambda>a.
     let flux_val = Finite (45 / 10 ^ 8) in
     bind_py (iloc_last a) (\<lambda>v. return_py (gt_reading v flux_val)))"

text \<open>\<^verbatim>\<open>flux_val = 5e-6\<close>, the float64 \<^verbatim>\<open>5902958103587057 / 2^70\<close>.\<close>

definition xrsb_condition :: "bool py" where
  "xrsb_condition =
     bind_py (getitem ''xrsb'') (\<lambda>b.
     let flux_val = Finite (5902958103587057 / 2 ^ 70) in
     bind_py (iloc_last b) (\<lambda>v. return_py (gt_reading v flux_val)))"

text \<open>\<^verbatim>\<open>flux_val = 3e-6\<close>, the float64 \<^verbatim>\<open>1770887431076117 / 2^69\<close>.\<close>

definition xrsb_condition2 :: "bool py" where
  "xrsb_condition2 =
     bind_py (getitem ''xrsb'') (\<lambda>b.
     let flux_val = Finite (1770887431076117 / 2 ^ 69) in
     bind_py (iloc_last b) (\<lambda>v. return_py (gt_reading v flux_val)))"

definition temp5min_condition :: "bool py" where
  "temp5min_condition =
     bind_py (getitem ''5min Temp'') (\<lambda>temp.
     let temp_val = Finite 10 in
     bind_py (iloc_last temp) (\<lambda>v. return_py (gt_reading v temp_val)))"

definition xrsa_3mindiff_condition :: "bool py" where
  "xrsa_3mindiff_condition =
     bind_py (getitem ''3minxrsadiff'') (\<lambda>xrsa3min.
     let xrsa3min_val = Finite (5 / 10 ^ 8) in
     bind_py (iloc_last xrsa3min) (\<lambda>v. return_py (gt_reading v xrsa3min_val)))"

text \<open>\<^verbatim>\<open>em_val = 1e47\<close>, the float64 \<^verbatim>\<open>4930380657631324 * 2^104\<close>.\<close>

definition em3min_condition :: "bool py" where
  "em3min_condition =
     bind_py (getitem ''5min emission measure'') (\<lambda>em.
     let em_val = Finite 100000000000000004384584304507619735463404765184 in
     bind_py (iloc_last em) (\<lambda>v. return_py (gt_reading v em_val)))"

definition special_flare_trigger :: "bool py" where
  "special_flare_trigger = return_py True"

definition magic_flare_trigger :: "bool py" where
  "magic_flare_trigger = return_py True"

text \<open>
  The flare-end condition looks up \<^verbatim>\<open>xrsa\<close> first and \<^verbatim>\<open>xrsb\<close> second, and
  compares only the last \<^verbatim>\<open>xrsb\<close> sample; \<^verbatim>\<open>a\<close> and
  \<^verbatim>\<open>flux_deriv_val\<close> are bound and not used.
\<close>

definition flare_end_condition :: "bool py" where
  "flare_end_condition =
     bind_py (getitem ''xrsa'') (\<lambda>a.
     bind_py (getitem ''xrsb'') (\<lambda>b.
     let flux_val = Finite (25 / 10 ^ 7);
         flux_deriv_val = Finite (1 / 10 ^ 9) in
     bind_py (iloc_last b) (\<lambda>v. return_py (lt_reading v flux_val))))"

section \<open>The registries\<close>

text \<open>A registry is a dict from label to condition function, in insertion order.\<close>

type_synonym registry = "(string \<times> bool py) list"

definition FLARE_ALERT_MAP :: registry where
  "FLARE_ALERT_MAP =
     [(''XRSB>5e-6 W/m<sup>2</sup>'', xrsb_condition),
      (''dEM (3 min)>1e47cm<sup>-2</sup>'', em3min_condition)]"

definition FLARE_ALERT_MAP_NEW :: registry where
  "FLARE_ALERT_MAP_NEW =
     [(''XRSB>3e-6 W/m<sup>2</sup><br>5 minute countdown<br>Last XRSA must be increasing'',
       xrsb_condition2)]"

text \<open>
  Modelled from the spec: the operation \<^verbatim>\<open>evaluate(sample_set, registry)\<close>, which
  belongs to the polling loop and is not among the source files. For each entry it invokes
  the predicate on the sample set and collects the verdict under the entry's label; an error
  raised by a predicate is propagated to the caller, and then no verdict mapping is returned.
  The spec fixes no visiting order: the entries are visited in the order of the list given,
  and what depends on the order is stated for a registry and for its reverse.
\<close>

fun evaluate :: "sample_set \<Rightarrow> registry \<Rightarrow> (error + (string \<times> bool) list) \<times> sample_set" where
  "evaluate sample_set [] = (Inr [], sample_set)"
| "evaluate sample_set ((label, predicate) # registry) =
     (case predicate sample_set of
        (Inl e, sample_set') \<Rightarrow> (Inl e, sample_set')
      | (Inr verdict, sample_set') \<Rightarrow>
          (case evaluate sample_set' registry of
             (Inl e, sample_set'') \<Rightarrow> (Inl e, sample_set'')
           | (Inr verdicts, sample_set'') \<Rightarrow> (Inr ((label, verdict) # verdicts), sample_set'')))"

text \<open>The samples of a series that "last" and "second-to-last" can reach.\<close>

definition last2 :: "series \<Rightarrow> series" where
  "last2 a = drop (length a - 2) a"

section \<open>What each condition function computes\<close>

text \<open>
  Each condition function, run to completion: the outcome as a function of the channel it
  looks up, and the sample set it hands back.
\<close>

lemma gt_reading_Finite:
  "gt_reading v (Finite t) = (case v of Finite x \<Rightarrow> t < x | PosInf \<Rightarrow> True | NegInf \<Rightarrow> False | NaN \<Rightarrow> False)"
  by (cases v) (simp_all add: gt_reading_def)

lemma lt_reading_Finite:
  "lt_reading v (Finite t) = (case v of Finite x \<Rightarrow> x < t | PosInf \<Rightarrow> False | NegInf \<Rightarrow> True | NaN \<Rightarrow> False)"
  by (cases v) simp_all

text \<open>
  The three float64 thresholds: each has a 53-bit mantissa, lies above the decimal value of
  its literal, and is within half a unit in the last place of it.
\<close>

lemma float64_5e_6:
  "(2::real) ^ 52 \<le> 5902958103587057 \<and> (5902958103587057::real) < 2 ^ 53
   \<and> (5::real) / 10 ^ 6 < 5902958103587057 / 2 ^ 70
   \<and> (5902958103587057::real) / 2 ^ 70 - 5 / 10 ^ 6 \<le> 1 / 2 ^ 71"
  by simp

lemma float64_3e_6:
  "(2::real) ^ 52 \<le> 7083549724304468 \<and> (7083549724304468::real) < 2 ^ 53
   \<and> (1770887431076117::real) / 2 ^ 69 = 7083549724304468 / 2 ^ 71
   \<and> (3::real) / 10 ^ 6 < 1770887431076117 / 2 ^ 69
   \<and> (1770887431076117::real) / 2 ^ 69 - 3 / 10 ^ 6 \<le> 1 / 2 ^ 72"
  by simp

lemma float64_1e47:
  "(2::real) ^ 52 \<le> 4930380657631324 \<and> (4930380657631324::real) < 2 ^ 53
   \<and> (100000000000000004384584304507619735463404765184::real) = 4930380657631324 * 2 ^ 104
   \<and> (10::real) ^ 47 < 100000000000000004384584304507619735463404765184
   \<and> (100000000000000004384584304507619735463404765184::real) - 10 ^ 47 \<le> 2 ^ 103"
  by simp

lemmas py_defs = bind_py_def getitem_def iloc_last_def return_py_def raise_py_def

lemma xrsa_condition_run:
  "xrsa_condition goes_data =
     (case goes_data ''xrsa'' of
        None \<Rightarrow> Inl (KeyError ''xrsa'')
      | Some a \<Rightarrow> if a = [] then Inl IndexError else Inr (gt_reading (last a) (Finite (45 / 10 ^ 8))),
      goes_data)"
  by (simp add: xrsa_condition_def py_defs split: option.splits)

lemma xrsb_condition_run:
  "xrsb_condition goes_data =
     (case goes_data ''xrsb'' of
        None \<Rightarrow> Inl (KeyError ''xrsb'')
      | Some b \<Rightarrow> if b = [] then Inl IndexError else Inr (gt_reading (last b) (Finite (5902958103587057 / 2 ^ 70))),
      goes_data)"
  by (simp add: xrsb_condition_def py_defs split: option.splits)

lemma xrsb_condition2_run:
  "xrsb_condition2 goes_data =
     (case goes_data ''xrsb'' of
        None \<Rightarrow> Inl (KeyError ''xrsb'')
      | Some b \<Rightarrow> if b = [] then Inl IndexError else Inr (gt_reading (last b) (Finite (1770887431076117 / 2 ^ 69))),
      goes_data)"
  by (simp add: xrsb_condition2_def py_defs split: option.splits)

lemma temp5min_condition_run:
  "temp5min_condition goes_data =
     (case goes_data ''5min Temp'' of
        None \<Rightarrow> Inl (KeyError ''5min Temp'')
      | Some temp \<Rightarrow> if temp = [] then Inl IndexError else Inr (gt_reading (last temp) (Finite 10)),
      goes_data)"
  by (simp add: temp5min_condition_def py_defs split: option.splits)

lemma xrsa_3mindiff_condition_run:
  "xrsa_3mindiff_condition goes_data =
     (case goes_data ''3minxrsadiff'' of
        None \<Rightarrow> Inl (KeyError ''3minxrsadiff'')
      | Some d \<Rightarrow> if d = [] then Inl IndexError else Inr (gt_reading (last d) (Finite (5 / 10 ^ 8))),
      goes_data)"
  by (simp add: xrsa_3mindiff_condition_def py_defs split: option.splits)

lemma em3min_condition_run:
  "em3min_condition goes_data =
     (case goes_data ''5min emission measure'' of
        None \<Rightarrow> Inl (KeyError ''5min emission measure'')
      | Some em \<Rightarrow> if em = [] then Inl IndexError else Inr (gt_reading (last em) (Finite 100000000000000004384584304507619735463404765184)),
      goes_data)"
  by (simp add: em3min_condition_def py_defs split: option.splits)

lemma flare_end_condition_run:
  "flare_end_condition goes_data =
     (case goes_data ''xrsa'' of
        None \<Rightarrow> Inl (KeyError ''xrsa'')
      | Some a \<Rightarrow>
          (case goes_data ''xrsb'' of
             None \<Rightarrow> Inl (KeyError ''xrsb'')
           | Some b \<Rightarrow> if b = [] then Inl IndexError else Inr (lt_reading (last b) (Finite (25 / 10 ^ 7)))),
      goes_data)"
  by (simp add: flare_end_condition_def py_defs split: option.splits)

section \<open>The last two samples of a series\<close>

lemma last2_Nil_iff: "last2 a = [] \<longleftrightarrow> a = []"
  by (cases a) (simp_all add: last2_def)

lemma last_last2: "last (last2 a) = last a"
  by (cases "a = []") (simp_all add: last2_def)

lemma last2_agree:
  assumes "last2 a = last2 b"
  shows "(a = [] \<longleftrightarrow> b = []) \<and> last a = last b"
proof -
  from assms have "a = [] \<longleftrightarrow> b = []"
    using last2_Nil_iff [of a] last2_Nil_iff [of b] by simp
  moreover from assms have "last a = last b"
    using last_last2 [of a] last_last2 [of b] by simp
  ultimately show ?thesis by simp
qed

lemma channel_agree:
  assumes "dom s1 = dom s2" and "\<forall>c\<in>dom s1. last2 (the (s1 c)) = last2 (the (s2 c))"
  shows "(s1 c = None \<and> s2 c = None)
         \<or> (\<exists>a b. s1 c = Some a \<and> s2 c = Some b \<and> (a = [] \<longleftrightarrow> b = []) \<and> last a = last b)"
proof (cases "s1 c")
  case None
  with assms(1) have "s2 c = None" by (metis domIff)
  with None show ?thesis by simp
next
  case (Some a)
  then have c: "c \<in> dom s1" by (simp add: domI)
  with assms(1) obtain b where b: "s2 c = Some b" by (metis domD)
  from assms(2) c have "last2 (the (s1 c)) = last2 (the (s2 c))" by (rule bspec)
  with Some b have "last2 a = last2 b" by simp
  then have "(a = [] \<longleftrightarrow> b = []) \<and> last a = last b" by (rule last2_agree)
  with Some b show ?thesis by simp
qed

section \<open>The flare-end condition and the channels it looks up\<close>

text \<open>
  C1, as stated, at a sample set whose only column is \<^verbatim>\<open>xrsb = [2e-6]\<close>: the
  channel is present and non-empty and its last value is below 2.5e-6, yet the flare-end
  condition raises \<^verbatim>\<open>KeyError('xrsa')\<close>, because it looks \<^verbatim>\<open>xrsa\<close>
  up before \<^verbatim>\<open>xrsb\<close>.
\<close>

theorem flare_end_needs_xrsa_counterexample:
  "map_of [(''xrsb'', [Finite (2 / 10 ^ 6)])] ''xrsb'' = Some [Finite (2 / 10 ^ 6)]
   \<and> [Finite (2 / 10 ^ 6)] \<noteq> []
   \<and> lt_reading (last [Finite (2 / 10 ^ 6)]) (Finite (25 / 10 ^ 7))
   \<and> fst (flare_end_condition (map_of [(''xrsb'', [Finite (2 / 10 ^ 6)])])) = Inl (KeyError ''xrsa'')"
  by (simp add: flare_end_condition_run)

text \<open>
  C1, amended. For every sample set in which \<^verbatim>\<open>xrsb\<close> is present and non-empty,
  the flare-end condition succeeds and returns whether the last \<^verbatim>\<open>xrsb\<close> value is
  below 2.5e-6 when \<^verbatim>\<open>xrsa\<close> is present too (its samples are not read), and raises
  \<^verbatim>\<open>KeyError('xrsa')\<close> when \<^verbatim>\<open>xrsa\<close> is absent. A sample set without
  \<^verbatim>\<open>xrsa\<close> gets \<^verbatim>\<open>KeyError('xrsa')\<close> whether or not it has
  \<^verbatim>\<open>xrsb\<close>.
\<close>

theorem flare_end_needs_both_channels:
  assumes "goes_data ''xrsb'' = Some b" and "b \<noteq> []"
  shows "flare_end_condition goes_data =
           (case goes_data ''xrsa'' of
              None \<Rightarrow> Inl (KeyError ''xrsa'')
            | Some a \<Rightarrow>
                Inr (case last b of
                       Finite x \<Rightarrow> x < 25 / 10 ^ 7 | PosInf \<Rightarrow> False | NegInf \<Rightarrow> True | NaN \<Rightarrow> False),
            goes_data)
         \<and> fst (flare_end_condition (goes_data'(''xrsa'' := None))) = Inl (KeyError ''xrsa'')"
  using assms
  by (cases "last b") (simp_all add: flare_end_condition_run split: option.splits)

theorem flare_end_needs_both_channels_witness:
  "map_of [(''xrsa'', [Finite (2 / 10 ^ 7)]), (''xrsb'', [Finite (3 / 10 ^ 6)])] ''xrsb''
     = Some [Finite (3 / 10 ^ 6)]
   \<and> [Finite (3 / 10 ^ 6)] \<noteq> []
   \<and> flare_end_condition (map_of [(''xrsa'', [Finite (2 / 10 ^ 7)]), (''xrsb'', [Finite (3 / 10 ^ 6)])])
       = (Inr False, map_of [(''xrsa'', [Finite (2 / 10 ^ 7)]), (''xrsb'', [Finite (3 / 10 ^ 6)])])
   \<and> fst (flare_end_condition ((map_of [(''xrsb'', [Finite (3 / 10 ^ 6)])])(''xrsa'' := None)))
       = Inl (KeyError ''xrsa'')"
  using flare_end_needs_both_channels
          [of "map_of [(''xrsa'', [Finite (2 / 10 ^ 7)]), (''xrsb'', [Finite (3 / 10 ^ 6)])]"
              "[Finite (3 / 10 ^ 6)]" "map_of [(''xrsb'', [Finite (3 / 10 ^ 6)])]"]
  by simp

section \<open>Thresholds\<close>

text \<open>
  C2. For every sample set with a non-empty \<^verbatim>\<open>xrsb\<close> channel, the XRSB-high
  condition returns true exactly when the last \<^verbatim>\<open>xrsb\<close> value is strictly greater
  than \<^verbatim>\<open>5e-6\<close>, the float64 \<^verbatim>\<open>5902958103587057 / 2^70\<close> (never for NaN); a
  last value equal to that float64 gives false, and so does every value at or below the
  decimal \<^verbatim>\<open>5 / 10^6\<close>.
\<close>

theorem xrsb_high_iff_above_threshold:
  assumes "goes_data ''xrsb'' = Some b" and "b \<noteq> []"
  shows "fst (xrsb_condition goes_data) =
           Inr (case last b of
                  Finite x \<Rightarrow> 5902958103587057 / 2 ^ 70 < x
                | PosInf \<Rightarrow> True | NegInf \<Rightarrow> False | NaN \<Rightarrow> False)
         \<and> fst (xrsb_condition (goes_data(''xrsb'' \<mapsto> b @ [Finite (5902958103587057 / 2 ^ 70)])))
             = Inr False
         \<and> fst (xrsb_condition (goes_data(''xrsb'' \<mapsto> b @ [Finite (5 / 10 ^ 6)]))) = Inr False"
  using assms by (cases "last b") (simp_all add: xrsb_condition_run gt_reading_def)

theorem xrsb_high_iff_above_threshold_witness:
  "map_of [(''xrsb'', [Finite (1 / 10 ^ 6), Finite (6 / 10 ^ 6)])] ''xrsb''
     = Some [Finite (1 / 10 ^ 6), Finite (6 / 10 ^ 6)]
   \<and> [Finite (1 / 10 ^ 6), Finite (6 / 10 ^ 6)] \<noteq> []
   \<and> fst (xrsb_condition (map_of [(''xrsb'', [Finite (1 / 10 ^ 6), Finite (6 / 10 ^ 6)])])) = Inr True"
  using xrsb_high_iff_above_threshold
          [of "map_of [(''xrsb'', [Finite (1 / 10 ^ 6), Finite (6 / 10 ^ 6)])]"
              "[Finite (1 / 10 ^ 6), Finite (6 / 10 ^ 6)]"]
  by simp

text \<open>
  C3. Whenever the flare-end condition returns a verdict, \<^verbatim>\<open>xrsb\<close> is present and
  non-empty and the verdict is true exactly when its last value is strictly below 2.5e-6;
  a last value equal to or above 2.5e-6, or NaN, gives false.
\<close>

theorem flare_end_iff_below_threshold:
  assumes "fst (flare_end_condition goes_data) = Inr v"
  shows "\<exists>b. goes_data ''xrsb'' = Some b \<and> b \<noteq> []
           \<and> v = (case last b of Finite x \<Rightarrow> x < 25 / 10 ^ 7 | PosInf \<Rightarrow> False | NegInf \<Rightarrow> True | NaN \<Rightarrow> False)"
proof -
  from assms obtain b where b: "goes_data ''xrsb'' = Some b" "b \<noteq> []"
    and v: "v = lt_reading (last b) (Finite (25 / 10 ^ 7))"
    by (auto simp add: flare_end_condition_run split: option.splits if_splits)
  from v have "v = (case last b of Finite x \<Rightarrow> x < 25 / 10 ^ 7 | PosInf \<Rightarrow> False | NegInf \<Rightarrow> True | NaN \<Rightarrow> False)"
    by (cases "last b") simp_all
  with b show ?thesis by blast
qed

theorem flare_end_iff_below_threshold_witness:
  "fst (flare_end_condition
          (map_of [(''xrsa'', [Finite (1 / 10 ^ 7)]),
                   (''xrsb'', [Finite (4 / 10 ^ 6), Finite (2 / 10 ^ 6)])])) = Inr True
   \<and> map_of [(''xrsa'', [Finite (1 / 10 ^ 7)]),
              (''xrsb'', [Finite (4 / 10 ^ 6), Finite (2 / 10 ^ 6)])] ''xrsb''
       = Some [Finite (4 / 10 ^ 6), Finite (2 / 10 ^ 6)]"
  using flare_end_iff_below_threshold
          [of "map_of [(''xrsa'', [Finite (1 / 10 ^ 7)]),
                       (''xrsb'', [Finite (4 / 10 ^ 6), Finite (2 / 10 ^ 6)])]" True]
  by (simp add: flare_end_condition_run)

section \<open>Evaluating the original registry\<close>

text \<open>
  C4, as stated, at the sample set with the two columns \<^verbatim>\<open>xrsb\<close> and
  \<^verbatim>\<open>5min emission measure\<close> and no rows: the emission-measure channel is empty,
  the emission-measure condition raises \<^verbatim>\<open>IndexError\<close>, which names no channel,
  and evaluating the original registry gives that \<^verbatim>\<open>IndexError\<close> in whichever order
  the two entries are visited; no error naming \<^verbatim>\<open>5min emission measure\<close> is raised.
\<close>

theorem empty_emission_measure_counterexample:
  "map_of [(''xrsb'', []), (''5min emission measure'', [])] ''5min emission measure'' = Some []
   \<and> fst (em3min_condition (map_of [(''xrsb'', []), (''5min emission measure'', [])]))
       = Inl IndexError
   \<and> fst (evaluate (map_of [(''xrsb'', []), (''5min emission measure'', [])]) FLARE_ALERT_MAP)
       = Inl IndexError
   \<and> fst (evaluate (map_of [(''xrsb'', []), (''5min emission measure'', [])]) (rev FLARE_ALERT_MAP))
       = Inl IndexError
   \<and> IndexError \<noteq> KeyError ''5min emission measure''"
  by (simp add: FLARE_ALERT_MAP_def xrsb_condition_run em3min_condition_run)

text \<open>
  C4, amended. For every sample set in which \<^verbatim>\<open>5min emission measure\<close> is absent
  or empty, evaluating the original registry fails and returns no partial or default verdict
  mapping, in whichever order its two entries are visited, and the error it propagates is
  one that a condition of the registry raised. The emission-measure condition raises
  \<^verbatim>\<open>KeyError\<close> naming \<^verbatim>\<open>5min emission measure\<close> when the channel is absent
  and \<^verbatim>\<open>IndexError\<close>, which names no channel, when it is empty.
\<close>

theorem registry_fails_without_emission_measure:
  assumes "sample_set ''5min emission measure'' = None \<or> sample_set ''5min emission measure'' = Some []"
  shows "(\<exists>e. fst (evaluate sample_set FLARE_ALERT_MAP) = Inl e
              \<and> (fst (xrsb_condition sample_set) = Inl e \<or> fst (em3min_condition sample_set) = Inl e))
         \<and> (\<exists>e. fst (evaluate sample_set (rev FLARE_ALERT_MAP)) = Inl e
              \<and> (fst (xrsb_condition sample_set) = Inl e \<or> fst (em3min_condition sample_set) = Inl e))
         \<and> fst (em3min_condition sample_set) =
               Inl (if sample_set ''5min emission measure'' = None
                    then KeyError ''5min emission measure'' else IndexError)"
  using assms
  by (auto simp add: FLARE_ALERT_MAP_def xrsb_condition_run em3min_condition_run split: option.splits)

theorem registry_fails_without_emission_measure_witness:
  "(map_of [(''xrsb'', [Finite (1 / 10 ^ 6), Finite (6 / 10 ^ 6)])] ''5min emission measure'' = None
    \<or> map_of [(''xrsb'', [Finite (1 / 10 ^ 6), Finite (6 / 10 ^ 6)])] ''5min emission measure'' = Some [])
   \<and> fst (evaluate (map_of [(''xrsb'', [Finite (1 / 10 ^ 6), Finite (6 / 10 ^ 6)])]) FLARE_ALERT_MAP)
       = Inl (KeyError ''5min emission measure'')
   \<and> fst (evaluate (map_of [(''xrsb'', [Finite (1 / 10 ^ 6), Finite (6 / 10 ^ 6)])]) (rev FLARE_ALERT_MAP))
       = Inl (KeyError ''5min emission measure'')"
  using registry_fails_without_emission_measure
          [of "map_of [(''xrsb'', [Finite (1 / 10 ^ 6), Finite (6 / 10 ^ 6)])]"]
  by (simp add: FLARE_ALERT_MAP_def xrsb_condition_run em3min_condition_run gt_reading_def)

text \<open>
  C6. For a sample set with \<^verbatim>\<open>xrsb = [1e-6, 6e-6]\<close> and
  \<^verbatim>\<open>5min emission measure = [2e46, 2e47]\<close>, evaluating the original registry
  succeeds, and both the XRSB-high label and the emission-measure label map to true.
\<close>

theorem scenario_original_registry_verdicts:
  assumes "sample_set ''xrsb'' = Some [Finite (1 / 10 ^ 6), Finite (6 / 10 ^ 6)]"
    and "sample_set ''5min emission measure'' = Some [Finite (2 * 10 ^ 46), Finite (2 * 10 ^ 47)]"
  shows "evaluate sample_set FLARE_ALERT_MAP =
           (Inr [(''XRSB>5e-6 W/m<sup>2</sup>'', True), (''dEM (3 min)>1e47cm<sup>-2</sup>'', True)],
            sample_set)"
  using assms
  by (simp add: FLARE_ALERT_MAP_def xrsb_condition_run em3min_condition_run gt_reading_def)

theorem scenario_original_registry_verdicts_witness:
  "map_of [(''xrsb'', [Finite (1 / 10 ^ 6), Finite (6 / 10 ^ 6)]),
           (''5min emission measure'', [Finite (2 * 10 ^ 46), Finite (2 * 10 ^ 47)])] ''xrsb''
     = Some [Finite (1 / 10 ^ 6), Finite (6 / 10 ^ 6)]
   \<and> map_of [(''xrsb'', [Finite (1 / 10 ^ 6), Finite (6 / 10 ^ 6)]),
              (''5min emission measure'', [Finite (2 * 10 ^ 46), Finite (2 * 10 ^ 47)])]
         ''5min emission measure''
       = Some [Finite (2 * 10 ^ 46), Finite (2 * 10 ^ 47)]
   \<and> fst (evaluate
            (map_of [(''xrsb'', [Finite (1 / 10 ^ 6), Finite (6 / 10 ^ 6)]),
                     (''5min emission measure'', [Finite (2 * 10 ^ 46), Finite (2 * 10 ^ 47)])])
            FLARE_ALERT_MAP)
       = Inr [(''XRSB>5e-6 W/m<sup>2</sup>'', True), (''dEM (3 min)>1e47cm<sup>-2</sup>'', True)]"
  using scenario_original_registry_verdicts
          [of "map_of [(''xrsb'', [Finite (1 / 10 ^ 6), Finite (6 / 10 ^ 6)]),
                       (''5min emission measure'', [Finite (2 * 10 ^ 46), Finite (2 * 10 ^ 47)])]"]
  by simp

section \<open>The scenario \<^verbatim>\<open>xrsb = [4e-6, 2e-6]\<close>\<close>

text \<open>
  C5, as stated, at the sample set whose only column is \<^verbatim>\<open>xrsb = [4e-6, 2e-6]\<close>:
  the flare-end condition does not return true there (it raises
  \<^verbatim>\<open>KeyError('xrsa')\<close>).
\<close>

theorem scenario_xrsb_only_counterexample:
  "map_of [(''xrsb'', [Finite (4 / 10 ^ 6), Finite (2 / 10 ^ 6)])] ''xrsb''
     = Some [Finite (4 / 10 ^ 6), Finite (2 / 10 ^ 6)]
   \<and> fst (flare_end_condition (map_of [(''xrsb'', [Finite (4 / 10 ^ 6), Finite (2 / 10 ^ 6)])]))
       \<noteq> Inr True"
  by (simp add: flare_end_condition_run)

text \<open>
  C5, amended. For a sample set with \<^verbatim>\<open>xrsb = [4e-6, 2e-6]\<close>, the XRSB-high
  condition returns false; the flare-end condition returns true when the sample set also has
  an \<^verbatim>\<open>xrsa\<close> column, and raises \<^verbatim>\<open>KeyError('xrsa')\<close> when it has not.
\<close>

theorem scenario_flare_end_and_xrsb_high:
  assumes "goes_data ''xrsb'' = Some [Finite (4 / 10 ^ 6), Finite (2 / 10 ^ 6)]"
  shows "fst (xrsb_condition goes_data) = Inr False
         \<and> fst (flare_end_condition goes_data) =
             (case goes_data ''xrsa'' of None \<Rightarrow> Inl (KeyError ''xrsa'') | Some a \<Rightarrow> Inr True)"
  using assms by (simp add: xrsb_condition_run flare_end_condition_run gt_reading_def split: option.splits)

theorem scenario_flare_end_and_xrsb_high_witness:
  "map_of [(''xrsa'', [Finite (3 / 10 ^ 7), Finite (1 / 10 ^ 7)]),
           (''xrsb'', [Finite (4 / 10 ^ 6), Finite (2 / 10 ^ 6)])] ''xrsb''
     = Some [Finite (4 / 10 ^ 6), Finite (2 / 10 ^ 6)]
   \<and> fst (xrsb_condition
            (map_of [(''xrsa'', [Finite (3 / 10 ^ 7), Finite (1 / 10 ^ 7)]),
                     (''xrsb'', [Finite (4 / 10 ^ 6), Finite (2 / 10 ^ 6)])])) = Inr False
   \<and> fst (flare_end_condition
            (map_of [(''xrsa'', [Finite (3 / 10 ^ 7), Finite (1 / 10 ^ 7)]),
                     (''xrsb'', [Finite (4 / 10 ^ 6), Finite (2 / 10 ^ 6)])])) = Inr True"
  using scenario_flare_end_and_xrsb_high
          [of "map_of [(''xrsa'', [Finite (3 / 10 ^ 7), Finite (1 / 10 ^ 7)]),
                       (''xrsb'', [Finite (4 / 10 ^ 6), Finite (2 / 10 ^ 6)])]"]
  by simp

section \<open>What the conditions depend on\<close>

text \<open>
  C7. Two sample sets that have the same channels and agree on the last two samples of every
  channel get the same outcome (verdict or error) from every condition function, and so from
  every predicate of either registry.
\<close>

theorem predicates_read_last_two_samples_only:
  assumes "dom s1 = dom s2" and "\<forall>c\<in>dom s1. last2 (the (s1 c)) = last2 (the (s2 c))"
  shows "(\<forall>(label, predicate) \<in> set (FLARE_ALERT_MAP @ FLARE_ALERT_MAP_NEW).
            fst (predicate s1) = fst (predicate s2))
         \<and> fst (xrsa_condition s1) = fst (xrsa_condition s2)
         \<and> fst (xrsb_condition s1) = fst (xrsb_condition s2)
         \<and> fst (xrsb_condition2 s1) = fst (xrsb_condition2 s2)
         \<and> fst (temp5min_condition s1) = fst (temp5min_condition s2)
         \<and> fst (xrsa_3mindiff_condition s1) = fst (xrsa_3mindiff_condition s2)
         \<and> fst (em3min_condition s1) = fst (em3min_condition s2)
         \<and> fst (special_flare_trigger s1) = fst (special_flare_trigger s2)
         \<and> fst (magic_flare_trigger s1) = fst (magic_flare_trigger s2)
         \<and> fst (flare_end_condition s1) = fst (flare_end_condition s2)"
proof -
  note agree = channel_agree [OF assms]
  have xrsa: "fst (xrsa_condition s1) = fst (xrsa_condition s2)"
    using agree [of "''xrsa''"] by (auto simp add: xrsa_condition_run)
  have xrsb: "fst (xrsb_condition s1) = fst (xrsb_condition s2)"
    using agree [of "''xrsb''"] by (auto simp add: xrsb_condition_run)
  have xrsb2: "fst (xrsb_condition2 s1) = fst (xrsb_condition2 s2)"
    using agree [of "''xrsb''"] by (auto simp add: xrsb_condition2_run)
  have temp: "fst (temp5min_condition s1) = fst (temp5min_condition s2)"
    using agree [of "''5min Temp''"] by (auto simp add: temp5min_condition_run)
  have diff: "fst (xrsa_3mindiff_condition s1) = fst (xrsa_3mindiff_condition s2)"
    using agree [of "''3minxrsadiff''"] by (auto simp add: xrsa_3mindiff_condition_run)
  have em: "fst (em3min_condition s1) = fst (em3min_condition s2)"
    using agree [of "''5min emission measure''"] by (auto simp add: em3min_condition_run)
  have triggers: "fst (special_flare_trigger s1) = fst (special_flare_trigger s2)"
    "fst (magic_flare_trigger s1) = fst (magic_flare_trigger s2)"
    by (simp_all add: special_flare_trigger_def magic_flare_trigger_def return_py_def)
  have flare_end: "fst (flare_end_condition s1) = fst (flare_end_condition s2)"
    using agree [of "''xrsa''"] agree [of "''xrsb''"] by (auto simp add: flare_end_condition_run)
  have "\<forall>(label, predicate) \<in> set (FLARE_ALERT_MAP @ FLARE_ALERT_MAP_NEW).
          fst (predicate s1) = fst (predicate s2)"
    using xrsb xrsb2 em by (simp add: FLARE_ALERT_MAP_def FLARE_ALERT_MAP_NEW_def)
  with xrsa xrsb xrsb2 temp diff em triggers flare_end show ?thesis by simp
qed

theorem predicates_read_last_two_samples_only_witness:
  "dom (map_of [(''xrsb'', [Finite (9 / 10 ^ 6), Finite (4 / 10 ^ 6), Finite (6 / 10 ^ 6)])])
     = dom (map_of [(''xrsb'', [Finite (1 / 10 ^ 6), Finite (4 / 10 ^ 6), Finite (6 / 10 ^ 6)])])
   \<and> last2 [Finite (9 / 10 ^ 6), Finite (4 / 10 ^ 6), Finite (6 / 10 ^ 6)]
       = last2 [Finite (1 / 10 ^ 6), Finite (4 / 10 ^ 6), Finite (6 / 10 ^ 6)]
   \<and> fst (xrsb_condition (map_of [(''xrsb'', [Finite (9 / 10 ^ 6), Finite (4 / 10 ^ 6), Finite (6 / 10 ^ 6)])]))
       = fst (xrsb_condition (map_of [(''xrsb'', [Finite (1 / 10 ^ 6), Finite (4 / 10 ^ 6), Finite (6 / 10 ^ 6)])]))"
  using predicates_read_last_two_samples_only
          [of "map_of [(''xrsb'', [Finite (9 / 10 ^ 6), Finite (4 / 10 ^ 6), Finite (6 / 10 ^ 6)])]"
              "map_of [(''xrsb'', [Finite (1 / 10 ^ 6), Finite (4 / 10 ^ 6), Finite (6 / 10 ^ 6)])]"]
  by (simp add: last2_def)

text \<open>
  C8. The placeholder predicates \<^verbatim>\<open>special_flare_trigger\<close> and
  \<^verbatim>\<open>magic_flare_trigger\<close> return true on every sample set, the one with no
  channels included, and never raise.
\<close>

theorem placeholder_triggers_always_true:
  "special_flare_trigger goes_data = (Inr True, goes_data)
   \<and> magic_flare_trigger goes_data = (Inr True, goes_data)
   \<and> fst (special_flare_trigger (map_of [])) = Inr True
   \<and> fst (magic_flare_trigger (map_of [])) = Inr True"
  by (simp add: special_flare_trigger_def magic_flare_trigger_def return_py_def)

text \<open>
  C10. Two sample sets that both have non-empty \<^verbatim>\<open>xrsa\<close> and \<^verbatim>\<open>xrsb\<close>
  channels and agree on the last \<^verbatim>\<open>xrsb\<close> value get the same flare-end verdict,
  whatever their \<^verbatim>\<open>xrsa\<close> values are.
\<close>

theorem flare_end_independent_of_xrsa:
  assumes "s1 ''xrsa'' = Some a1" and "a1 \<noteq> []" and "s1 ''xrsb'' = Some b1" and "b1 \<noteq> []"
    and "s2 ''xrsa'' = Some a2" and "a2 \<noteq> []" and "s2 ''xrsb'' = Some b2" and "b2 \<noteq> []"
    and "last b1 = last b2"
  shows "fst (flare_end_condition s1) = fst (flare_end_condition s2)"
  using assms by (simp add: flare_end_condition_run)

theorem flare_end_independent_of_xrsa_witness:
  "map_of [(''xrsa'', [Finite (1 / 10 ^ 7)]), (''xrsb'', [Finite (4 / 10 ^ 6), Finite (2 / 10 ^ 6)])] ''xrsa''
     = Some [Finite (1 / 10 ^ 7)]
   \<and> [Finite (1 / 10 ^ 7)] \<noteq> []
   \<and> map_of [(''xrsa'', [Finite (1 / 10 ^ 7)]), (''xrsb'', [Finite (4 / 10 ^ 6), Finite (2 / 10 ^ 6)])] ''xrsb''
       = Some [Finite (4 / 10 ^ 6), Finite (2 / 10 ^ 6)]
   \<and> [Finite (4 / 10 ^ 6), Finite (2 / 10 ^ 6)] \<noteq> []
   \<and> map_of [(''xrsa'', [NaN, Finite 9]), (''xrsb'', [Finite (2 / 10 ^ 6)])] ''xrsa'' = Some [NaN, Finite 9]
   \<and> [NaN, Finite 9] \<noteq> []
   \<and> map_of [(''xrsa'', [NaN, Finite 9]), (''xrsb'', [Finite (2 / 10 ^ 6)])] ''xrsb'' = Some [Finite (2 / 10 ^ 6)]
   \<and> [Finite (2 / 10 ^ 6)] \<noteq> []
   \<and> last [Finite (4 / 10 ^ 6), Finite (2 / 10 ^ 6)] = last [Finite (2 / 10 ^ 6)]
   \<and> fst (flare_end_condition
            (map_of [(''xrsa'', [Finite (1 / 10 ^ 7)]), (''xrsb'', [Finite (4 / 10 ^ 6), Finite (2 / 10 ^ 6)])]))
       = fst (flare_end_condition (map_of [(''xrsa'', [NaN, Finite 9]), (''xrsb'', [Finite (2 / 10 ^ 6)])]))"
  using flare_end_independent_of_xrsa
          [of "map_of [(''xrsa'', [Finite (1 / 10 ^ 7)]), (''xrsb'', [Finite (4 / 10 ^ 6), Finite (2 / 10 ^ 6)])]"
              "[Finite (1 / 10 ^ 7)]" "[Finite (4 / 10 ^ 6), Finite (2 / 10 ^ 6)]"
              "map_of [(''xrsa'', [NaN, Finite 9]), (''xrsb'', [Finite (2 / 10 ^ 6)])]"
              "[NaN, Finite 9]" "[Finite (2 / 10 ^ 6)]"]
  by simp

end
